theory Spec2Isabelle
  imports Main "HOL-Library.Word" "HOL-Library.Sublist"
begin

section \<open>The browser adapter of agent-smith\<close>

text \<open>
  A shallow embedding of \<^verbatim>\<open>src/agent_smith/computer/browser.py\<close>. The class
  \<^verbatim>\<open>HeadlessChromeBrowser\<close> translates abstract actions into calls of a browser
  driver (Playwright). The driver is not part of the repository: it is a parameter of the
  model, and what the adapter does is the sequence of driver calls it issues, the value it
  returns or the exception it raises, and what it prints.

  Python strings are \<^typ>\<open>string\<close>, one \<^typ>\<open>char\<close> per code point, so the model
  covers the code points below 256. The \<^verbatim>\<open>await\<close>s of the source run one after the
  other and are modelled as sequential composition.
\<close>

subsection \<open>Exceptions, driver calls and the world\<close>

text \<open>
  \<^verbatim>\<open>except Exception\<close> catches the instances of \<^verbatim>\<open>Exception\<close> (every error of
  the driver: \<^verbatim>\<open>playwright.Error\<close>, \<^verbatim>\<open>TimeoutError\<close>; also \<^verbatim>\<open>KeyError\<close>) and
  lets the other instances of \<^verbatim>\<open>BaseException\<close> pass
  (\<^verbatim>\<open>asyncio.CancelledError\<close>, \<^verbatim>\<open>KeyboardInterrupt\<close>). The argument is the text
  that \<^verbatim>\<open>str(e)\<close> gives.
\<close>

datatype exn =
    PyException string
  | PyBaseException string

type_synonym byte = "8 word"

datatype driver_call =
    PlaywrightStart
  | ChromiumLaunch "string list"
  | NewPage
  | SetViewportSize int int
  | BrowserClose
  | PlaywrightStop
  | PageScreenshot bool
  | MouseClick int int string
  | MouseDblclick int int
  | MouseWheel int int
  | MouseMove int int
  | MouseDown
  | MouseUp
  | KeyboardType string
  | KeyboardDown string
  | KeyboardPress string
  | KeyboardUp string
  | PageGoto string
  | PageGoBack
  | PageGoForward

text \<open>
  The driver decides, from the calls made so far and the call at hand, whether the call
  raises, and which bytes a screenshot returns.
\<close>

record driver =
  outcome :: "driver_call list \<Rightarrow> driver_call \<Rightarrow> exn option"
  png_bytes :: "driver_call list \<Rightarrow> byte list"

text \<open>The world: the driver calls made so far, oldest first, and the lines printed.\<close>

record world =
  calls :: "driver_call list"
  stdout :: "string list"

type_synonym 'a action = "world \<Rightarrow> (exn + 'a) \<times> world"

text \<open>One awaited driver call: it is recorded, and it returns or raises as the driver says.\<close>

definition call :: "driver \<Rightarrow> driver_call \<Rightarrow> unit action" where
  "call drv c w =
     (case outcome drv (calls w) c of
        None \<Rightarrow> (Inr (), w\<lparr>calls := calls w @ [c]\<rparr>)
      | Some e \<Rightarrow> (Inl e, w\<lparr>calls := calls w @ [c]\<rparr>))"

text \<open>Statement after statement: an exception of the first skips the second.\<close>

definition seq :: "unit action \<Rightarrow> 'a action \<Rightarrow> 'a action" where
  "seq m n w = (case m w of (Inl e, w') \<Rightarrow> (Inl e, w') | (Inr _, w') \<Rightarrow> n w')"

text \<open>\<^verbatim>\<open>for x in xs: body(x)\<close>.\<close>

fun for_each :: "('a \<Rightarrow> unit action) \<Rightarrow> 'a list \<Rightarrow> unit action" where
  "for_each body [] w = (Inr (), w)"
| "for_each body (x # xs) w =
     (case body x w of (Inl e, w') \<Rightarrow> (Inl e, w') | (Inr _, w') \<Rightarrow> for_each body xs w')"

text \<open>\<^verbatim>\<open>print\<close>, taken to succeed: the line is appended to the output.\<close>

definition print :: "string \<Rightarrow> unit action" where
  "print line w = (Inr (), w\<lparr>stdout := stdout w @ [line]\<rparr>)"

subsection \<open>The key table\<close>

text \<open>\<^verbatim>\<open>str.lower\<close> on the code points below 256.\<close>

definition lower_char :: "char \<Rightarrow> char" where
  "lower_char c =
     (let n = (of_char c :: nat) in
      if (65 \<le> n \<and> n \<le> 90) \<or> (192 \<le> n \<and> n \<le> 222 \<and> n \<noteq> 215)
      then char_of (n + 32) else c)"

definition lower :: "string \<Rightarrow> string" where
  "lower s = map lower_char s"

definition CUA_KEY_TO_PLAYWRIGHT_KEY :: "string \<rightharpoonup> string" where
  "CUA_KEY_TO_PLAYWRIGHT_KEY = map_of
     [(''/'', ''Divide''),
      ([CHR 0x5C], ''Backslash''),
      (''alt'', ''Alt''),
      (''arrowdown'', ''ArrowDown''),
      (''arrowleft'', ''ArrowLeft''),
      (''arrowright'', ''ArrowRight''),
      (''arrowup'', ''ArrowUp''),
      (''backspace'', ''Backspace''),
      (''capslock'', ''CapsLock''),
      (''cmd'', ''Meta''),
      (''ctrl'', ''ControlOrMeta''),
      (''delete'', ''Delete''),
      (''end'', ''End''),
      (''enter'', ''Enter''),
      (''esc'', ''Escape''),
      (''home'', ''Home''),
      (''insert'', ''Insert''),
      (''option'', ''Alt''),
      (''pagedown'', ''PageDown''),
      (''pageup'', ''PageUp''),
      (''shift'', ''Shift''),
      (''space'', '' ''),
      (''super'', ''Meta''),
      (''tab'', ''Tab''),
      (''win'', ''Meta'')]"

text \<open>\<^verbatim>\<open>CUA_KEY_TO_PLAYWRIGHT_KEY.get(key.lower(), key)\<close>.\<close>

definition map_key :: "string \<Rightarrow> string" where
  "map_key key =
     (case CUA_KEY_TO_PLAYWRIGHT_KEY (lower key) of None \<Rightarrow> key | Some v \<Rightarrow> v)"

text \<open>\<^verbatim>\<open>mapped_key in ["Control", "Alt", "Shift", "Meta", "ControlOrMeta"]\<close>.\<close>

definition is_modifier :: "string \<Rightarrow> bool" where
  "is_modifier mapped_key =
     (mapped_key \<in> set [''Control'', ''Alt'', ''Shift'', ''Meta'', ''ControlOrMeta''])"

subsection \<open>The session and its lifetime\<close>

text \<open>
  An instance attribute is either never assigned, and reading it raises
  \<^verbatim>\<open>AttributeError\<close>, or assigned an object, given here by its truth value. The class
  has no \<^verbatim>\<open>__init__\<close>: a new instance has neither \<^verbatim>\<open>_playwright\<close> nor
  \<^verbatim>\<open>_browser\<close>, and \<^verbatim>\<open>__aenter__\<close> assigns each a driver object, which is true,
  as soon as the call that creates it has returned.
\<close>

datatype attribute = Unassigned | Assigned bool

record session =
  playwright :: attribute
  browser :: attribute

definition new_instance :: session where
  "new_instance = \<lparr>playwright = Unassigned, browser = Unassigned\<rparr>"

definition opened :: session where
  "opened = \<lparr>playwright = Assigned True, browser = Assigned True\<rparr>"

definition attribute_error :: "string \<Rightarrow> exn" where
  "attribute_error name =
     PyException ([CHR 0x27] @ ''HeadlessChromeBrowser'' @ [CHR 0x27] @
       '' object has no attribute '' @ [CHR 0x27] @ name @ [CHR 0x27])"

definition getattr :: "string \<Rightarrow> attribute \<Rightarrow> exn + bool" where
  "getattr name a = (case a of Unassigned \<Rightarrow> Inl (attribute_error name) | Assigned b \<Rightarrow> Inr b)"

text \<open>
  \<^verbatim>\<open>__aenter__\<close> changes \<^verbatim>\<open>self\<close> as it goes, so the session comes back with the
  result, also when a call raises.
\<close>

definition aenter :: "driver \<Rightarrow> session \<Rightarrow> world \<Rightarrow> (exn + unit) \<times> session \<times> world" where
  "aenter drv self w =
     (case call drv PlaywrightStart w of
        (Inl e, w1) \<Rightarrow> (Inl e, self, w1)
      | (Inr _, w1) \<Rightarrow>
          (let self1 = self\<lparr>playwright := Assigned True\<rparr> in
           case call drv (ChromiumLaunch
                  [''--window-size=1024,768'', ''--disable-extensions'', ''--disable-file-system'']) w1 of
             (Inl e, w2) \<Rightarrow> (Inl e, self1, w2)
           | (Inr _, w2) \<Rightarrow>
               (let self2 = self1\<lparr>browser := Assigned True\<rparr> in
                case seq (call drv NewPage)
                      (seq (call drv (SetViewportSize 1024 768))
                           (call drv (PageGoto ''https://google.com''))) w2 of
                  (r, w3) \<Rightarrow> (r, self2, w3))))"

text \<open>
  \<^verbatim>\<open>if self._browser: await self._browser.close()\<close>, then
  \<^verbatim>\<open>if self._playwright: await self._playwright.stop()\<close>.
\<close>

definition aexit :: "driver \<Rightarrow> session \<Rightarrow> unit action" where
  "aexit drv self w =
     (case getattr ''_browser'' (browser self) of
        Inl e \<Rightarrow> (Inl e, w)
      | Inr b \<Rightarrow>
          (case (if b then call drv BrowserClose w else (Inr (), w)) of
             (Inl e, w') \<Rightarrow> (Inl e, w')
           | (Inr _, w') \<Rightarrow>
               (case getattr ''_playwright'' (playwright self) of
                  Inl e \<Rightarrow> (Inl e, w')
                | Inr p \<Rightarrow> (if p then call drv PlaywrightStop w' else (Inr (), w')))))"

subsection \<open>The actions\<close>

text \<open>\<^verbatim>\<open>back\<close> of the source, with a suffix that avoids the Isar command of that name.\<close>

definition back_nav :: "driver \<Rightarrow> unit action" where
  "back_nav drv = call drv PageGoBack"

definition forward :: "driver \<Rightarrow> unit action" where
  "forward drv = call drv PageGoForward"

text \<open>\<^verbatim>\<open>button_mapping.get(button, "left")\<close> with the two entries of the source.\<close>

definition button_mapping :: "string \<rightharpoonup> string" where
  "button_mapping = map_of [(''left'', ''left''), (''right'', ''right'')]"

definition click :: "driver \<Rightarrow> int \<Rightarrow> int \<Rightarrow> string \<Rightarrow> unit action" where
  "click drv x y button =
     (if button = ''back'' then back_nav drv
      else if button = ''forward'' then forward drv
      else if button = ''wheel'' then call drv (MouseWheel x y)
      else (let button_type = (case button_mapping button of None \<Rightarrow> ''left'' | Some b \<Rightarrow> b)
            in call drv (MouseClick x y button_type)))"

definition double_click :: "driver \<Rightarrow> int \<Rightarrow> int \<Rightarrow> unit action" where
  "double_click drv x y = call drv (MouseDblclick x y)"

definition type_text :: "driver \<Rightarrow> string \<Rightarrow> unit action" where
  "type_text drv text = call drv (KeyboardType text)"

definition move :: "driver \<Rightarrow> int \<Rightarrow> int \<Rightarrow> unit action" where
  "move drv x y = call drv (MouseMove x y)"

text \<open>The first loop of \<^verbatim>\<open>keypress\<close>, with its two lists as accumulators.\<close>

fun split_keys :: "string list \<Rightarrow> string list \<Rightarrow> string list \<Rightarrow> string list \<times> string list" where
  "split_keys [] modifier_keys regular_keys = (modifier_keys, regular_keys)"
| "split_keys (key # keys) modifier_keys regular_keys =
     (let mapped_key = map_key key in
      if is_modifier mapped_key
      then split_keys keys (modifier_keys @ [mapped_key]) regular_keys
      else split_keys keys modifier_keys (regular_keys @ [mapped_key]))"

definition keypress :: "driver \<Rightarrow> string list \<Rightarrow> unit action" where
  "keypress drv keys =
     (case split_keys keys [] [] of (modifier_keys, regular_keys) \<Rightarrow>
        seq (for_each (\<lambda>modifier. call drv (KeyboardDown modifier)) modifier_keys)
       (seq (for_each (\<lambda>key. call drv (KeyboardPress key)) regular_keys)
            (for_each (\<lambda>modifier. call drv (KeyboardUp modifier)) (rev modifier_keys))))"

text \<open>
  \<^verbatim>\<open>try: await self._page.goto(url)\<close>, \<^verbatim>\<open>except Exception as e: print(...)\<close>.
\<close>

definition goto :: "driver \<Rightarrow> string \<Rightarrow> unit action" where
  "goto drv url w =
     (case call drv (PageGoto url) w of
        (Inl (PyException e), w') \<Rightarrow> print (''Error navigating to '' @ url @ '': '' @ e) w'
      | r \<Rightarrow> r)"

text \<open>
  A point of a drag path is a dictionary; \<^verbatim>\<open>point["x"]\<close> raises \<^verbatim>\<open>KeyError\<close> on a
  dictionary without the key, and \<^verbatim>\<open>str\<close> of that error is the key in quotes.
\<close>

type_synonym point = "string \<rightharpoonup> int"

definition getitem :: "point \<Rightarrow> string \<Rightarrow> exn + int" where
  "getitem d k =
     (case d k of None \<Rightarrow> Inl (PyException ([CHR 0x27] @ k @ [CHR 0x27])) | Some v \<Rightarrow> Inr v)"

text \<open>
  \<^verbatim>\<open>await self._page.mouse.move(point["x"], point["y"])\<close>: the arguments are read
  left to right, then the call is made.
\<close>

definition move_to :: "driver \<Rightarrow> point \<Rightarrow> unit action" where
  "move_to drv point w =
     (case getitem point ''x'' of
        Inl e \<Rightarrow> (Inl e, w)
      | Inr x \<Rightarrow>
          (case getitem point ''y'' of
             Inl e \<Rightarrow> (Inl e, w)
           | Inr y \<Rightarrow> call drv (MouseMove x y) w))"

definition drag :: "driver \<Rightarrow> point list \<Rightarrow> unit action" where
  "drag drv path =
     (case path of
        [] \<Rightarrow> (\<lambda>w. (Inr (), w))
      | first # rest \<Rightarrow>
          seq (move_to drv first)
         (seq (call drv MouseDown)
         (seq (for_each (move_to drv) rest)
              (call drv MouseUp))))"

text \<open>
  \<^verbatim>\<open>base64.b64encode\<close> of the standard library (RFC 4648, with padding), on the bytes
  as numbers; the \<^verbatim>\<open>decode("utf-8")\<close> that follows reads its ASCII output as a string.
\<close>

definition b64_alphabet :: string where
  "b64_alphabet = ''ABCDEFGHIJKLMNOPQRSTUVWXYZabcdefghijklmnopqrstuvwxyz0123456789+/''"

definition b64_char :: "nat \<Rightarrow> char" where
  "b64_char n = b64_alphabet ! (n mod 64)"

fun b64encode :: "byte list \<Rightarrow> string" where
  "b64encode (a # b # c # rest) =
     (let n = unat a * 65536 + unat b * 256 + unat c
      in [b64_char (n div 262144), b64_char (n div 4096), b64_char (n div 64), b64_char n])
     @ b64encode rest"
| "b64encode [a, b] =
     (let n = unat a * 1024 + unat b * 4
      in [b64_char (n div 4096), b64_char (n div 64), b64_char n, CHR ''=''])"
| "b64encode [a] =
     (let n = unat a * 16
      in [b64_char (n div 64), b64_char n, CHR ''='', CHR ''=''])"
| "b64encode [] = []"

text \<open>
  \<^verbatim>\<open>png_bytes = await self._page.screenshot(full_page=False)\<close>, then the encoding.
\<close>

definition screenshot :: "driver \<Rightarrow> string action" where
  "screenshot drv w =
     (case call drv (PageScreenshot False) w of
        (Inl e, w') \<Rightarrow> (Inl e, w')
      | (Inr _, w') \<Rightarrow> (Inr (b64encode (png_bytes drv (calls w))), w'))"

subsection \<open>Drivers and traces\<close>

text \<open>A driver on which no call ever raises.\<close>

definition reliable :: "(driver_call list \<Rightarrow> byte list) \<Rightarrow> driver" where
  "reliable shots = \<lparr>outcome = (\<lambda>history c. None), png_bytes = shots\<rparr>"

text \<open>A driver on which closing the browser raises, and every other call returns.\<close>

definition close_fails :: driver where
  "close_fails =
     \<lparr>outcome = (\<lambda>history c. if c = BrowserClose then Some (PyException ''close failed'') else None),
      png_bytes = (\<lambda>history. [])\<rparr>"

text \<open>A driver on which every navigation raises a driver error, and every other call returns.\<close>

definition unreachable :: driver where
  "unreachable =
     \<lparr>outcome = (\<lambda>history c. case c of PageGoto url \<Rightarrow> Some (PyException ''net::ERR'') | _ \<Rightarrow> None),
      png_bytes = (\<lambda>history. [102, 111, 111])\<rparr>"

text \<open>The world before any call.\<close>

definition initial :: world where
  "initial = \<lparr>calls = [], stdout = []\<rparr>"

text \<open>The two coordinates of a point, when it has both.\<close>

definition coords :: "point \<Rightarrow> (int \<times> int) option" where
  "coords p = (case (p ''x'', p ''y'') of (Some x, Some y) \<Rightarrow> Some (x, y) | _ \<Rightarrow> None)"

text \<open>The calls made between an earlier world and a later one.\<close>

definition issued :: "world \<Rightarrow> world \<Rightarrow> driver_call list" where
  "issued w w' = drop (length (calls w)) (calls w')"

text \<open>Issuing a list of calls in order, up to the first that raises.\<close>

definition attempt :: "driver \<Rightarrow> driver_call list \<Rightarrow> unit action" where
  "attempt drv cs = for_each (call drv) cs"

section \<open>Properties\<close>

subsection \<open>Calls, loops and traces\<close>

lemma issued_call: "issued w (snd (call drv c w)) = [c]"
  by (simp add: issued_def call_def split: option.splits)

lemma for_each_call_map: "for_each (\<lambda>x. call drv (f x)) xs = attempt drv (map f xs)"
proof
  fix w
  show "for_each (\<lambda>x. call drv (f x)) xs w = attempt drv (map f xs) w"
    by (induction xs arbitrary: w) (auto simp: attempt_def split: prod.splits sum.splits)
qed

lemma for_each_append:
  "for_each body (xs @ ys) w = seq (for_each body xs) (for_each body ys) w"
  by (induction xs arbitrary: w) (auto simp: seq_def split: prod.splits sum.splits)

lemma attempt_append: "attempt drv (cs @ ds) = seq (attempt drv cs) (attempt drv ds)"
  by (rule ext) (simp add: attempt_def for_each_append)

lemma attempt_Cons: "attempt drv (c # cs) = seq (call drv c) (attempt drv cs)"
  by (rule ext) (auto simp: attempt_def seq_def split: prod.splits sum.splits)

lemma seq_attempt_Nil: "seq m (attempt drv []) = m"
  by (rule ext) (auto simp: seq_def attempt_def split: prod.splits sum.splits)

lemma attempt_reliable:
  "attempt (reliable shots) cs w = (Inr (), w\<lparr>calls := calls w @ cs\<rparr>)"
  by (induction cs arbitrary: w) (auto simp: attempt_def call_def reliable_def)

text \<open>Whatever the driver does, the calls made are an initial part of the calls attempted.\<close>

lemma attempt_calls: "\<exists>ds. calls (snd (attempt drv cs w)) = calls w @ ds \<and> prefix ds cs"
proof (induction cs arbitrary: w)
  case Nil
  then show ?case by (simp add: attempt_def)
next
  case (Cons c cs)
  show ?case
  proof (cases "outcome drv (calls w) c")
    case None
    from Cons [of "w\<lparr>calls := calls w @ [c]\<rparr>"] obtain ds
      where "calls (snd (attempt drv cs (w\<lparr>calls := calls w @ [c]\<rparr>))) = (calls w @ [c]) @ ds"
        and "prefix ds cs" by auto
    with None show ?thesis
      by (intro exI [of _ "c # ds"]) (simp add: attempt_def call_def)
  next
    case (Some e)
    then show ?thesis
      by (intro exI [of _ "[c]"]) (simp add: attempt_def call_def)
  qed
qed

lemma attempt_issued: "prefix (issued w (snd (attempt drv cs w))) cs"
  using attempt_calls [of drv cs w] by (auto simp: issued_def)

subsection \<open>The key table on some names\<close>

lemma lower_ctrl: "lower ''ctrl'' = ''ctrl''"
  by code_simp

lemma lower_control: "lower ''control'' = ''control''"
  by code_simp

lemma lower_Control: "lower ''Control'' = ''control''"
  by code_simp

lemma lower_shift: "lower ''shift'' = ''shift''"
  by code_simp

lemma lower_a: "lower ''a'' = ''a''"
  by code_simp

lemma lower_ENTER: "lower ''ENTER'' = ''enter''"
  by code_simp

lemma lower_F5: "lower ''F5'' = ''f5''"
  by code_simp

text \<open>Beyond ASCII: the capital letter 192 lowers to 224, the multiplication sign 215 stays.\<close>

lemma lower_latin1: "lower [CHR 0xC0, CHR 0xD7, CHR 0xDE, CHR 0xDF] = [CHR 0xE0, CHR 0xD7, CHR 0xFE, CHR 0xDF]"
  by code_simp

subsection \<open>The key-press protocol\<close>

lemma split_keys_filter:
  "split_keys keys ms rs =
     (ms @ filter is_modifier (map map_key keys),
      rs @ filter (\<lambda>k. \<not> is_modifier k) (map map_key keys))"
  by (induction keys arbitrary: ms rs) (simp_all add: Let_def)

lemma keypress_attempt:
  "keypress drv keys w =
     attempt drv
       (map KeyboardDown (filter is_modifier (map map_key keys)) @
        map KeyboardPress (filter (\<lambda>k. \<not> is_modifier k) (map map_key keys)) @
        map KeyboardUp (rev (filter is_modifier (map map_key keys)))) w"
  by (simp add: keypress_def split_keys_filter for_each_call_map attempt_append)

text \<open>
  C1: for every list of key names, with \<open>ms\<close> the mapped names that are modifiers and
  \<open>rs\<close> the other mapped names, both in input order: on a driver that never raises,
  \<^verbatim>\<open>keypress\<close> issues exactly a key-down for each of \<open>ms\<close> in order, then a press for each
  of \<open>rs\<close> in order, then a key-up for each of \<open>ms\<close> in reversed order. On any
  driver it issues these calls in this order up to the first that raises, so the calls made
  are an initial part of that sequence.
\<close>

theorem keypress_order:
  "(let ms = filter is_modifier (map map_key keys);
        rs = filter (\<lambda>k. \<not> is_modifier k) (map map_key keys);
        protocol = map KeyboardDown ms @ map KeyboardPress rs @ map KeyboardUp (rev ms)
    in keypress (reliable shots) keys w = (Inr (), w\<lparr>calls := calls w @ protocol\<rparr>) \<and>
       keypress drv keys w = attempt drv protocol w \<and>
       prefix (issued w (snd (keypress drv keys w))) protocol)"
  unfolding Let_def
  by (simp only: keypress_attempt attempt_reliable attempt_issued simp_thms)

theorem keypress_order_witness:
  "keypress (reliable (\<lambda>history. [])) [''ctrl'', ''a'', ''shift'', ''ENTER''] initial =
     (Inr (), \<lparr>calls = [KeyboardDown ''ControlOrMeta'', KeyboardDown ''Shift'',
                         KeyboardPress ''a'', KeyboardPress ''Enter'',
                         KeyboardUp ''Shift'', KeyboardUp ''ControlOrMeta''],
               stdout = []\<rparr>)"
  using keypress_order [where shots = "\<lambda>history. []" and keys = "[''ctrl'', ''a'', ''shift'', ''ENTER'']"
      and w = initial and drv = unreachable]
  by (simp add: Let_def map_key_def is_modifier_def CUA_KEY_TO_PLAYWRIGHT_KEY_def initial_def
      lower_ctrl lower_a lower_shift lower_ENTER)

subsection \<open>Teardown\<close>

text \<open>
  The session that teardown receives is the one \<^verbatim>\<open>__aenter__\<close> left, with both
  handles set; closing the browser can fail on a session that opened without error.
\<close>

lemma aenter_reliable:
  "aenter (reliable shots) new_instance w =
     (Inr (), opened,
      w\<lparr>calls := calls w @
         [PlaywrightStart,
          ChromiumLaunch [''--window-size=1024,768'', ''--disable-extensions'', ''--disable-file-system''],
          NewPage, SetViewportSize 1024 768, PageGoto ''https://google.com'']\<rparr>)"
  by (simp add: aenter_def seq_def call_def reliable_def new_instance_def opened_def)

lemma aenter_close_fails:
  "fst (aenter close_fails new_instance initial) = Inr () \<and>
   fst (snd (aenter close_fails new_instance initial)) = opened"
  by (simp add: aenter_def seq_def call_def close_fails_def initial_def new_instance_def opened_def)

text \<open>
  When the launch of the browser raises, \<^verbatim>\<open>_browser\<close> stays unassigned, and a teardown
  of that instance raises on reading it, before any driver call.
\<close>

lemma aenter_launch_raises:
  "outcome drv (calls w) PlaywrightStart = None \<Longrightarrow>
   outcome drv (calls w @ [PlaywrightStart])
     (ChromiumLaunch [''--window-size=1024,768'', ''--disable-extensions'', ''--disable-file-system''])
     = Some e \<Longrightarrow>
   fst (aenter drv new_instance w) = Inl e \<and>
   fst (snd (aenter drv new_instance w)) = \<lparr>playwright = Assigned True, browser = Unassigned\<rparr>"
  by (simp add: aenter_def call_def new_instance_def)

lemma aexit_unassigned:
  "browser self = Unassigned \<Longrightarrow> aexit drv self w = (Inl (attribute_error ''_browser''), w)"
  by (simp add: aexit_def getattr_def)

text \<open>
  C2, as stated, fails: on a session that \<^verbatim>\<open>__aenter__\<close> opened, with a driver on which
  closing the browser raises, \<^verbatim>\<open>__aexit__\<close> raises that error after the one call
  \<^verbatim>\<open>browser.close()\<close>, and the driver is never stopped.
\<close>

theorem aexit_close_failure_skips_stop:
  "aexit close_fails opened initial =
     (Inl (PyException ''close failed''), \<lparr>calls = [BrowserClose], stdout = []\<rparr>)"
  by (simp add: aexit_def getattr_def close_fails_def opened_def initial_def call_def)

text \<open>
  C2, amended: teardown runs its two release steps in sequence, each at most once. On
  the session that \<^verbatim>\<open>__aenter__\<close> opened it closes the browser first; if that call
  raises, the error is raised to the caller and nothing else is called, so the driver is
  not stopped; if it returns, the driver is stopped, and teardown returns or raises as
  that second call does. More generally, with both handles assigned, a step is made exactly
  when its handle is true, the browser's before the driver's, up to the first call that
  raises.
\<close>

theorem aexit_sequence:
  "aexit drv opened w = attempt drv [BrowserClose, PlaywrightStop] w \<and>
   (outcome drv (calls w) BrowserClose = Some e \<longrightarrow>
      aexit drv opened w = (Inl e, w\<lparr>calls := calls w @ [BrowserClose]\<rparr>)) \<and>
   (outcome drv (calls w) BrowserClose = None \<and>
    outcome drv (calls w @ [BrowserClose]) PlaywrightStop = Some e \<longrightarrow>
      aexit drv opened w = (Inl e, w\<lparr>calls := calls w @ [BrowserClose, PlaywrightStop]\<rparr>)) \<and>
   (outcome drv (calls w) BrowserClose = None \<and>
    outcome drv (calls w @ [BrowserClose]) PlaywrightStop = None \<longrightarrow>
      aexit drv opened w = (Inr (), w\<lparr>calls := calls w @ [BrowserClose, PlaywrightStop]\<rparr>)) \<and>
   aexit drv \<lparr>playwright = Assigned p, browser = Assigned b\<rparr> w =
     attempt drv ((if b then [BrowserClose] else []) @ (if p then [PlaywrightStop] else [])) w"
  by (auto simp: aexit_def getattr_def opened_def attempt_def call_def split: option.splits)

theorem aexit_sequence_witness:
  "aexit (reliable (\<lambda>history. [])) opened initial =
     (Inr (), \<lparr>calls = [BrowserClose, PlaywrightStop], stdout = []\<rparr>) \<and>
   outcome close_fails (calls initial) BrowserClose = Some (PyException ''close failed'') \<and>
   aexit close_fails opened initial =
     (Inl (PyException ''close failed''), \<lparr>calls = [BrowserClose], stdout = []\<rparr>)"
  using aexit_sequence [where drv = "reliable (\<lambda>history. [])" and w = initial
      and e = "PyException ''close failed''" and p = True and b = True]
    aexit_sequence [where drv = close_fails and w = initial
      and e = "PyException ''close failed''" and p = True and b = True]
  by (simp add: reliable_def close_fails_def initial_def attempt_def call_def)

subsection \<open>Clicks\<close>

text \<open>
  C3: for every \<open>x\<close>, \<open>y\<close> and button name, \<^verbatim>\<open>click\<close> with \<^verbatim>\<open>"back"\<close> is
  \<^verbatim>\<open>back()\<close> and with \<^verbatim>\<open>"forward"\<close> is \<^verbatim>\<open>forward()\<close>, each issuing the one history
  call and no mouse click; with \<^verbatim>\<open>"wheel"\<close> it is the one call \<^verbatim>\<open>mouse.wheel(x, y)\<close>;
  with any other name it is the one call \<^verbatim>\<open>mouse.click(x, y)\<close> with button
  \<^verbatim>\<open>"right"\<close> for \<^verbatim>\<open>"right"\<close> and \<^verbatim>\<open>"left"\<close> for every other name.
\<close>

theorem click_dispatch:
  "click drv x y ''back'' = back_nav drv \<and>
   click drv x y ''forward'' = forward drv \<and>
   click drv x y ''wheel'' = call drv (MouseWheel x y) \<and>
   issued w (snd (click drv x y ''back'' w)) = [PageGoBack] \<and>
   issued w (snd (click drv x y ''forward'' w)) = [PageGoForward] \<and>
   issued w (snd (click drv x y ''wheel'' w)) = [MouseWheel x y] \<and>
   (button \<noteq> ''back'' \<and> button \<noteq> ''forward'' \<and> button \<noteq> ''wheel'' \<longrightarrow>
      click drv x y button =
        call drv (MouseClick x y (if button = ''right'' then ''right'' else ''left'')) \<and>
      issued w (snd (click drv x y button w)) =
        [MouseClick x y (if button = ''right'' then ''right'' else ''left'')])"
  by (simp add: click_def back_nav_def forward_def button_mapping_def issued_call)

theorem click_dispatch_witness:
  "click (reliable (\<lambda>history. [])) 100 200 ''left'' initial =
     (Inr (), \<lparr>calls = [MouseClick 100 200 ''left''], stdout = []\<rparr>) \<and>
   click (reliable (\<lambda>history. [])) 100 200 ''middle'' initial =
     (Inr (), \<lparr>calls = [MouseClick 100 200 ''left''], stdout = []\<rparr>) \<and>
   click (reliable (\<lambda>history. [])) 100 200 ''right'' initial =
     (Inr (), \<lparr>calls = [MouseClick 100 200 ''right''], stdout = []\<rparr>)"
  using click_dispatch [where drv = "reliable (\<lambda>history. [])" and x = 100 and y = 200
      and w = initial and button = "''left''"]
    click_dispatch [where drv = "reliable (\<lambda>history. [])" and x = 100 and y = 200
      and w = initial and button = "''middle''"]
    click_dispatch [where drv = "reliable (\<lambda>history. [])" and x = 100 and y = 200
      and w = initial and button = "''right''"]
  by (simp add: call_def reliable_def initial_def)

subsection \<open>Drags\<close>

lemma move_to_coords: "coords p = Some (x, y) \<Longrightarrow> move_to drv p = call drv (MouseMove x y)"
  by (rule ext) (auto simp: coords_def move_to_def getitem_def split: option.splits)

lemma for_each_move_to:
  "map coords ps = map Some xys \<Longrightarrow>
   for_each (move_to drv) ps = attempt drv (map (\<lambda>(x, y). MouseMove x y) xys)"
proof (induction ps arbitrary: xys)
  case Nil
  then show ?case by (auto simp: attempt_def)
next
  case (Cons p ps)
  then obtain x y rest where xys: "xys = (x, y) # rest" and p: "coords p = Some (x, y)"
    and ps: "map coords ps = map Some rest"
    by (cases xys) auto
  from Cons.IH [OF ps]
  have ih: "for_each (move_to drv) ps = attempt drv (map (\<lambda>(x, y). MouseMove x y) rest)" .
  show ?case
    by (rule ext)
      (simp add: xys ih [unfolded attempt_def] move_to_coords [OF p] attempt_def
        cong: prod.case_cong sum.case_cong)
qed

lemma drag_attempt:
  assumes "map coords (p # ps) = map Some ((x, y) # xys)"
  shows "drag drv (p # ps) =
           attempt drv (MouseMove x y # MouseDown # map (\<lambda>(x, y). MouseMove x y) xys @ [MouseUp])"
proof -
  from assms have p: "coords p = Some (x, y)" and ps: "map coords ps = map Some xys"
    by auto
  show ?thesis
    by (simp add: drag_def move_to_coords [OF p] for_each_move_to [OF ps] attempt_Cons
        attempt_append seq_attempt_Nil)
qed

text \<open>
  C4: \<^verbatim>\<open>drag([])\<close> makes no call at all, on any driver. For points that have both
  coordinates and a driver that never raises, \<^verbatim>\<open>drag([p])\<close> moves to \<open>p\<close>, presses and
  releases with no move in between, and \<^verbatim>\<open>drag([p0, ..., pn])\<close> moves to \<open>p0\<close>, presses,
  moves to each of \<open>p1\<close> to \<open>pn\<close> in order, and releases. On any driver these calls are
  issued in this order up to the first that raises.
\<close>

theorem drag_protocol:
  "drag drv [] w = (Inr (), w) \<and>
   (coords p = Some (x, y) \<longrightarrow>
      drag (reliable shots) [p] w =
        (Inr (), w\<lparr>calls := calls w @ [MouseMove x y, MouseDown, MouseUp]\<rparr>)) \<and>
   (map coords (p # ps) = map Some ((x, y) # xys) \<longrightarrow>
      drag (reliable shots) (p # ps) w =
        (Inr (), w\<lparr>calls := calls w @
           MouseMove x y # MouseDown # map (\<lambda>(x, y). MouseMove x y) xys @ [MouseUp]\<rparr>) \<and>
      drag drv (p # ps) w =
        attempt drv (MouseMove x y # MouseDown # map (\<lambda>(x, y). MouseMove x y) xys @ [MouseUp]) w)"
proof -
  have a: "drag drv [] w = (Inr (), w)"
    by (simp add: drag_def)
  have b: "drag (reliable shots) [p] w =
        (Inr (), w\<lparr>calls := calls w @ [MouseMove x y, MouseDown, MouseUp]\<rparr>)"
    if "coords p = Some (x, y)"
    using that drag_attempt [of p "[]" x y "[]" "reliable shots"]
    by (simp add: attempt_reliable)
  have c: "drag drv' (p # ps) w =
        attempt drv' (MouseMove x y # MouseDown # map (\<lambda>(x, y). MouseMove x y) xys @ [MouseUp]) w"
    if "map coords (p # ps) = map Some ((x, y) # xys)" for drv'
    using drag_attempt [OF that] by simp
  from a b c show ?thesis
    by (simp add: attempt_reliable)
qed

theorem drag_protocol_witness:
  "drag (reliable (\<lambda>history. []))
      [[''x'' \<mapsto> 10, ''y'' \<mapsto> 20], [''x'' \<mapsto> 30, ''y'' \<mapsto> 40], [''x'' \<mapsto> 50, ''y'' \<mapsto> 60]] initial =
     (Inr (), \<lparr>calls = [MouseMove 10 20, MouseDown, MouseMove 30 40, MouseMove 50 60, MouseUp],
               stdout = []\<rparr>) \<and>
   drag (reliable (\<lambda>history. [])) [[''x'' \<mapsto> 10, ''y'' \<mapsto> 20]] initial =
     (Inr (), \<lparr>calls = [MouseMove 10 20, MouseDown, MouseUp], stdout = []\<rparr>)"
  using drag_protocol [where p = "[''x'' \<mapsto> 10, ''y'' \<mapsto> 20]" and x = 10 and y = 20
      and ps = "[[''x'' \<mapsto> 30, ''y'' \<mapsto> 40], [''x'' \<mapsto> 50, ''y'' \<mapsto> 60]]"
      and xys = "[(30, 40), (50, 60)]" and shots = "\<lambda>history. []" and w = initial
      and drv = unreachable]
  by (simp add: coords_def initial_def)

subsection \<open>Screenshots and navigation\<close>

text \<open>The encoding on the test vectors of RFC 4648 and on high bytes.\<close>

lemma b64encode_foo: "b64encode [102, 111, 111] = ''Zm9v''"
  by (simp add: b64_char_def b64_alphabet_def Let_def)

lemma b64encode_foob: "b64encode [102, 111, 111, 98] = ''Zm9vYg==''"
  by (simp add: b64_char_def b64_alphabet_def Let_def)

lemma b64encode_fooba: "b64encode [102, 111, 111, 98, 97] = ''Zm9vYmE=''"
  by (simp add: b64_char_def b64_alphabet_def Let_def)

lemma b64encode_high: "b64encode [255, 254, 253] = ''//79''"
  by (simp add: b64_char_def b64_alphabet_def Let_def)

text \<open>An exception outside \<^verbatim>\<open>Exception\<close> is not caught by \<^verbatim>\<open>goto\<close>.\<close>

lemma goto_base_exception:
  "outcome drv (calls w) (PageGoto url) = Some (PyBaseException e) \<Longrightarrow>
   goto drv url w = (Inl (PyBaseException e), w\<lparr>calls := calls w @ [PageGoto url]\<rparr>)"
  by (simp add: goto_def call_def)

text \<open>
  C5: for every URL, when the navigation returns, \<^verbatim>\<open>goto\<close> returns; when the navigation
  raises an error (an instance of \<^verbatim>\<open>Exception\<close>), \<^verbatim>\<open>goto\<close> still returns normally,
  having made the one navigation call and printed one line with the URL and the error.
  The session is usable afterwards: every later driver call that the driver accepts
  succeeds, and a screenshot then returns its payload.
\<close>

theorem goto_swallows_navigation_errors:
  "(outcome drv (calls w) (PageGoto url) = None \<longrightarrow>
      goto drv url w = (Inr (), w\<lparr>calls := calls w @ [PageGoto url]\<rparr>)) \<and>
   (outcome drv (calls w) (PageGoto url) = Some (PyException e) \<longrightarrow>
      goto drv url w =
        (Inr (), w\<lparr>calls := calls w @ [PageGoto url],
                   stdout := stdout w @ [''Error navigating to '' @ url @ '': '' @ e]\<rparr>) \<and>
      (outcome drv (calls w @ [PageGoto url]) c = None \<longrightarrow>
         call drv c (snd (goto drv url w)) =
           (Inr (), snd (goto drv url w)\<lparr>calls := calls w @ [PageGoto url, c]\<rparr>)) \<and>
      (outcome drv (calls w @ [PageGoto url]) (PageScreenshot False) = None \<longrightarrow>
         fst (screenshot drv (snd (goto drv url w))) =
           Inr (b64encode (png_bytes drv (calls w @ [PageGoto url])))))"
  by (auto simp: goto_def call_def print_def screenshot_def split: option.splits)

theorem goto_swallows_navigation_errors_witness:
  "outcome unreachable [] (PageGoto ''https://example.test'') = Some (PyException ''net::ERR'') \<and>
   goto unreachable ''https://example.test'' initial =
     (Inr (), \<lparr>calls = [PageGoto ''https://example.test''],
               stdout = [''Error navigating to https://example.test: net::ERR'']\<rparr>) \<and>
   fst (screenshot unreachable (snd (goto unreachable ''https://example.test'' initial))) = Inr ''Zm9v''"
  using goto_swallows_navigation_errors [where drv = unreachable and w = initial
      and url = "''https://example.test''" and e = "''net::ERR''" and c = MouseDown]
  by (simp add: unreachable_def initial_def goto_def call_def print_def screenshot_def
      b64encode_foo del: b64encode.simps)

subsection \<open>Single keys and the key table\<close>

text \<open>
  C6: for every key name \<open>k\<close>: if the lowered \<open>k\<close> is in the key table with value
  \<open>v\<close>, \<^verbatim>\<open>keypress([k])\<close> presses and releases exactly \<open>v\<close> (a key-down and a key-up of
  \<open>v\<close> when \<open>v\<close> is a modifier, one press of \<open>v\<close> otherwise); if it is absent, the
  same holds with the original string \<open>k\<close>, not lowered, in place of \<open>v\<close>.
\<close>

theorem keypress_single_key:
  "(CUA_KEY_TO_PLAYWRIGHT_KEY (lower k) = Some v \<longrightarrow>
      keypress drv [k] w =
        attempt drv (if is_modifier v then [KeyboardDown v, KeyboardUp v] else [KeyboardPress v]) w \<and>
      keypress (reliable shots) [k] w =
        (Inr (), w\<lparr>calls := calls w @
           (if is_modifier v then [KeyboardDown v, KeyboardUp v] else [KeyboardPress v])\<rparr>)) \<and>
   (CUA_KEY_TO_PLAYWRIGHT_KEY (lower k) = None \<longrightarrow>
      keypress drv [k] w =
        attempt drv (if is_modifier k then [KeyboardDown k, KeyboardUp k] else [KeyboardPress k]) w \<and>
      keypress (reliable shots) [k] w =
        (Inr (), w\<lparr>calls := calls w @
           (if is_modifier k then [KeyboardDown k, KeyboardUp k] else [KeyboardPress k])\<rparr>))"
  by (simp add: keypress_attempt attempt_reliable map_key_def)

theorem keypress_single_key_witness:
  "CUA_KEY_TO_PLAYWRIGHT_KEY (lower ''ENTER'') = Some ''Enter'' \<and>
   keypress (reliable (\<lambda>history. [])) [''ENTER''] initial =
     (Inr (), \<lparr>calls = [KeyboardPress ''Enter''], stdout = []\<rparr>) \<and>
   CUA_KEY_TO_PLAYWRIGHT_KEY (lower ''F5'') = None \<and>
   keypress (reliable (\<lambda>history. [])) [''F5''] initial =
     (Inr (), \<lparr>calls = [KeyboardPress ''F5''], stdout = []\<rparr>)"
  using keypress_single_key [where k = "''ENTER''" and v = "''Enter''" and drv = unreachable
      and w = initial and shots = "\<lambda>history. []"]
    keypress_single_key [where k = "''F5''" and v = "''Enter''" and drv = unreachable
      and w = initial and shots = "\<lambda>history. []"]
  by (simp add: is_modifier_def CUA_KEY_TO_PLAYWRIGHT_KEY_def initial_def lower_ENTER lower_F5)

subsection \<open>The screenshot payload\<close>

text \<open>
  C7: \<^verbatim>\<open>screenshot\<close> makes one driver call, a screenshot of the viewport
  (\<^verbatim>\<open>full_page=False\<close>), and when that call returns, \<^verbatim>\<open>screenshot\<close> returns the base64
  encoding of the bytes it returned, as a string.
\<close>

theorem screenshot_viewport_base64:
  "issued w (snd (screenshot drv w)) = [PageScreenshot False] \<and>
   (outcome drv (calls w) (PageScreenshot False) = None \<longrightarrow>
      screenshot drv w =
        (Inr (b64encode (png_bytes drv (calls w))), w\<lparr>calls := calls w @ [PageScreenshot False]\<rparr>))"
  by (auto simp: screenshot_def call_def issued_def split: option.splits)

theorem screenshot_viewport_base64_witness:
  "outcome unreachable [] (PageScreenshot False) = None \<and>
   screenshot unreachable initial = (Inr ''Zm9v'', \<lparr>calls = [PageScreenshot False], stdout = []\<rparr>)"
  using screenshot_viewport_base64 [where drv = unreachable and w = initial]
  by (simp add: unreachable_def initial_def b64encode_foo del: b64encode.simps)

subsection \<open>Empty key lists, case of names, coordinates of history clicks\<close>

text \<open>
  C8: \<^verbatim>\<open>keypress\<close> with an empty key list is a no-op: it returns normally and issues
  no keyboard-down, keyboard-press or keyboard-up call, and no other call, on any driver.
\<close>

theorem keypress_empty_noop: "keypress drv [] w = (Inr (), w)"
  by (simp add: keypress_def seq_def)

text \<open>
  C9: whether a name absent from the key table is a modifier is decided on the name as
  written, case-sensitively: it is a modifier exactly when it is one of the five strings
  \<^verbatim>\<open>Control\<close>, \<^verbatim>\<open>Alt\<close>, \<^verbatim>\<open>Shift\<close>, \<^verbatim>\<open>Meta\<close>, \<^verbatim>\<open>ControlOrMeta\<close>. So
  \<^verbatim>\<open>keypress(["ctrl"])\<close> holds the modifier \<^verbatim>\<open>ControlOrMeta\<close> down and releases it,
  \<^verbatim>\<open>keypress(["control"])\<close> presses the regular key \<^verbatim>\<open>control\<close>, and
  \<^verbatim>\<open>keypress(["Control"])\<close> holds the modifier \<^verbatim>\<open>Control\<close> down and releases it.
\<close>

theorem keypress_modifier_case_sensitive:
  "keypress (reliable shots) [''ctrl''] w =
     (Inr (), w\<lparr>calls := calls w @ [KeyboardDown ''ControlOrMeta'', KeyboardUp ''ControlOrMeta'']\<rparr>) \<and>
   keypress (reliable shots) [''control''] w =
     (Inr (), w\<lparr>calls := calls w @ [KeyboardPress ''control'']\<rparr>) \<and>
   keypress (reliable shots) [''Control''] w =
     (Inr (), w\<lparr>calls := calls w @ [KeyboardDown ''Control'', KeyboardUp ''Control'']\<rparr>) \<and>
   (CUA_KEY_TO_PLAYWRIGHT_KEY (lower k) = None \<longrightarrow>
      is_modifier (map_key k) =
        (k = ''Control'' \<or> k = ''Alt'' \<or> k = ''Shift'' \<or> k = ''Meta'' \<or> k = ''ControlOrMeta''))"
  by (simp add: keypress_attempt attempt_reliable map_key_def is_modifier_def
      CUA_KEY_TO_PLAYWRIGHT_KEY_def lower_ctrl lower_control lower_Control)

theorem keypress_modifier_case_sensitive_witness:
  "CUA_KEY_TO_PLAYWRIGHT_KEY (lower ''control'') = None \<and> \<not> is_modifier (map_key ''control'') \<and>
   CUA_KEY_TO_PLAYWRIGHT_KEY (lower ''Control'') = None \<and> is_modifier (map_key ''Control'')"
  using keypress_modifier_case_sensitive [where shots = "\<lambda>history. []" and w = initial
      and k = "''control''"]
    keypress_modifier_case_sensitive [where shots = "\<lambda>history. []" and w = initial
      and k = "''Control''"]
  by (simp add: CUA_KEY_TO_PLAYWRIGHT_KEY_def lower_control lower_Control)

text \<open>
  C10: \<^verbatim>\<open>click\<close> with button \<^verbatim>\<open>"back"\<close> or \<^verbatim>\<open>"forward"\<close> ignores its coordinates:
  for any two coordinate pairs the two clicks return the same result and issue the same
  driver calls, on every driver and from every world.
\<close>

theorem click_back_forward_ignores_coordinates:
  "click drv x1 y1 ''back'' w = click drv x2 y2 ''back'' w \<and>
   click drv x1 y1 ''forward'' w = click drv x2 y2 ''forward'' w"
  by (simp add: click_def)

end
